theory Spec2Isabelle
  imports Complex_Main "HOL-Library.Sublist"
begin

section \<open>Python values used by the training pipeline\<close>

text \<open>
  The embedded program is \<^verbatim>\<open>src/test-dataset/new-test-data/03-model-training.py\<close>,
  class \<^verbatim>\<open>DrugActivityPredictor\<close>. An exception is identified by the name of its class.
  Floats are modelled as reals (no NaN, no rounding), class labels as integers.
\<close>

datatype exn = Exn (exn_class: string)

text \<open>
  A Python \<^verbatim>\<open>dict\<close> keeps insertion order and has unique keys: an association list.
  \<^verbatim>\<open>d[k] = v\<close> overwrites the value of an existing key in place and appends a new key
  at the end; \<^verbatim>\<open>d[k]\<close> raises \<^verbatim>\<open>KeyError\<close> on a missing key.
\<close>

type_synonym ('k, 'v) dict = "('k \<times> 'v) list"

fun dict_set :: "'k \<Rightarrow> 'v \<Rightarrow> ('k, 'v) dict \<Rightarrow> ('k, 'v) dict" where
  "dict_set k v [] = [(k, v)]"
| "dict_set k v ((k', v') # d) = (if k' = k then (k, v) # d else (k', v') # dict_set k v d)"

fun dict_get :: "('k, 'v) dict \<Rightarrow> 'k \<Rightarrow> exn + 'v" where
  "dict_get [] k = Inl (Exn ''KeyError'')"
| "dict_get ((k', v') # d) k = (if k' = k then Inr v' else dict_get d k)"

definition keys :: "('k, 'v) dict \<Rightarrow> 'k list" where
  "keys d = map fst d"

text \<open>
  \<^verbatim>\<open>max(iterable, key=f)\<close>: \<^verbatim>\<open>ValueError\<close> on an empty iterable; otherwise the first
  item is the candidate and a later item replaces it only when its key is strictly
  greater, so the first of several maximal items is returned. The key function is
  called once per item and its exception, if any, propagates.
\<close>

fun max_loop :: "('k \<Rightarrow> exn + real) \<Rightarrow> 'k \<Rightarrow> real \<Rightarrow> 'k list \<Rightarrow> exn + 'k" where
  "max_loop key best bv [] = Inr best"
| "max_loop key best bv (x # xs) =
     (case key x of
        Inl e \<Rightarrow> Inl e
      | Inr v \<Rightarrow> if v > bv then max_loop key x v xs else max_loop key best bv xs)"

definition py_max :: "('k \<Rightarrow> exn + real) \<Rightarrow> 'k list \<Rightarrow> exn + 'k" where
  "py_max key xs =
     (case xs of
        [] \<Rightarrow> Inl (Exn ''ValueError'')
      | x # rest \<Rightarrow> (case key x of Inl e \<Rightarrow> Inl e | Inr v \<Rightarrow> max_loop key x v rest))"

text \<open>
  \<^verbatim>\<open>cv_scores.mean()\<close> and \<^verbatim>\<open>cv_scores.std()\<close> of a numpy array (population deviation).
  \<^verbatim>\<open>cross_val_score\<close> returns one score per fold, so the array is never empty.
\<close>

definition np_mean :: "real list \<Rightarrow> real" where
  "np_mean xs = sum_list xs / real (length xs)"

definition np_std :: "real list \<Rightarrow> real" where
  "np_std xs = sqrt (np_mean (map (\<lambda>x. (x - np_mean xs)\<^sup>2) xs))"

section \<open>The external collaborators\<close>

text \<open>
  scikit-learn and joblib are not part of the repository: the estimators' \<^verbatim>\<open>fit\<close> and
  \<^verbatim>\<open>predict\<close>, \<^verbatim>\<open>train_test_split\<close>, the four metric functions, \<^verbatim>\<open>cross_val_score\<close>
  and the serialisation done by \<^verbatim>\<open>joblib.dump\<close> are parameters of the model. Each may
  raise. \<^verbatim>\<open>fit\<close> mutates the estimator in place, so it returns the estimator as it is
  afterwards together with the exception it raised, if any.
\<close>

record 'x split =
  X_train :: "'x list"
  X_test :: "'x list"
  y_train :: "int list"
  y_test :: "int list"

record ('m, 'x, 'b) env =
  fit :: "'m \<Rightarrow> 'x list \<Rightarrow> int list \<Rightarrow> 'm \<times> exn option"
  predict :: "'m \<Rightarrow> 'x list \<Rightarrow> exn + int list"
  train_test_split :: "'x list \<Rightarrow> int list \<Rightarrow> real \<Rightarrow> nat option \<Rightarrow> int list option \<Rightarrow> exn + 'x split"
  accuracy_score :: "int list \<Rightarrow> int list \<Rightarrow> exn + real"
  precision_score :: "int list \<Rightarrow> int list \<Rightarrow> string \<Rightarrow> exn + real"
  recall_score :: "int list \<Rightarrow> int list \<Rightarrow> string \<Rightarrow> exn + real"
  f1_score :: "int list \<Rightarrow> int list \<Rightarrow> string \<Rightarrow> exn + real"
  cross_val_score :: "'m \<Rightarrow> 'x list \<Rightarrow> int list \<Rightarrow> nat \<Rightarrow> exn + real list"
  pickle :: "'m \<Rightarrow> 'b"

section \<open>DrugActivityPredictor\<close>

record scores =
  accuracy :: real
  precision :: real
  recall :: real
  f1 :: real
  cv_mean :: real
  cv_std :: real

record 'm predictor =
  models :: "(string, 'm) dict"
  trained_models :: "(string, 'm) dict"
  model_scores :: "(string, scores) dict"

text \<open>
  \<^verbatim>\<open>__init__\<close> fills \<^verbatim>\<open>self.models\<close> with four estimators under fixed names; the
  estimators themselves are opaque. The registry is an argument of \<open>init\<close>, so that
  the theorems hold for every registry, that of the source included. Both result
  dictionaries start empty.
\<close>

definition default_models :: "'m \<Rightarrow> 'm \<Rightarrow> 'm \<Rightarrow> 'm \<Rightarrow> (string, 'm) dict" where
  "default_models rf svc mlp gb =
     [(''random_forest'', rf), (''svm'', svc), (''neural_network'', mlp),
      (''gradient_boosting'', gb)]"

definition init :: "(string, 'm) dict \<Rightarrow> 'm predictor" where
  "init registry = \<lparr>models = registry, trained_models = [], model_scores = []\<rparr>"

text \<open>
  One iteration of the loop of \<^verbatim>\<open>train_models\<close> (lines 45 to 74). No statement is
  guarded by \<^verbatim>\<open>try\<close>: the first exception leaves the loop and the method. The fitted
  estimator is the object held by \<^verbatim>\<open>self.models\<close>, so that entry changes with the fit.
\<close>

definition train_one ::
  "('m, 'x, 'b) env \<Rightarrow> 'x split \<Rightarrow> string \<Rightarrow> 'm \<Rightarrow> 'm predictor \<Rightarrow> 'm predictor \<times> exn option" where
  "train_one E sp name model s =
     (case fit E model (X_train sp) (y_train sp) of
        (model', Some e) \<Rightarrow> (s\<lparr>models := dict_set name model' (models s)\<rparr>, Some e)
      | (model', None) \<Rightarrow>
          let s1 = s\<lparr>models := dict_set name model' (models s)\<rparr> in
          (case predict E model' (X_test sp) of
             Inl e \<Rightarrow> (s1, Some e)
           | Inr y_pred \<Rightarrow>
          (case accuracy_score E (y_test sp) y_pred of
             Inl e \<Rightarrow> (s1, Some e)
           | Inr acc \<Rightarrow>
          (case precision_score E (y_test sp) y_pred ''weighted'' of
             Inl e \<Rightarrow> (s1, Some e)
           | Inr prec \<Rightarrow>
          (case recall_score E (y_test sp) y_pred ''weighted'' of
             Inl e \<Rightarrow> (s1, Some e)
           | Inr rec \<Rightarrow>
          (case f1_score E (y_test sp) y_pred ''weighted'' of
             Inl e \<Rightarrow> (s1, Some e)
           | Inr f \<Rightarrow>
          (case cross_val_score E model' (X_train sp) (y_train sp) 5 of
             Inl e \<Rightarrow> (s1, Some e)
           | Inr cv_scores \<Rightarrow>
               (s1\<lparr>trained_models := dict_set name model' (trained_models s1),
                   model_scores := dict_set name
                     \<lparr>accuracy = acc, precision = prec, recall = rec, f1 = f,
                      cv_mean = np_mean cv_scores, cv_std = np_std cv_scores\<rparr>
                     (model_scores s1)\<rparr>,
                None))))))))"

fun train_loop ::
  "('m, 'x, 'b) env \<Rightarrow> 'x split \<Rightarrow> (string \<times> 'm) list \<Rightarrow> 'm predictor \<Rightarrow> 'm predictor \<times> exn option" where
  "train_loop E sp [] s = (s, None)"
| "train_loop E sp ((name, model) # rest) s =
     (case train_one E sp name model s of
        (s', Some e) \<Rightarrow> (s', Some e)
      | (s', None) \<Rightarrow> train_loop E sp rest s')"

definition train_models ::
  "('m, 'x, 'b) env \<Rightarrow> 'm predictor \<Rightarrow> 'x list \<Rightarrow> int list \<Rightarrow> 'm predictor \<times> exn option" where
  "train_models E s X y =
     (case train_test_split E X y (1 / 5) (Some 42) (Some y) of
        Inl e \<Rightarrow> (s, Some e)
      | Inr sp \<Rightarrow> train_loop E sp (models s) s)"

definition f1_of :: "'m predictor \<Rightarrow> string \<Rightarrow> exn + real" where
  "f1_of s x = (case dict_get (model_scores s) x of Inl e \<Rightarrow> Inl e | Inr sc \<Rightarrow> Inr (f1 sc))"

definition get_best_model :: "'m predictor \<Rightarrow> exn + (string \<times> 'm)" where
  "get_best_model s =
     (case py_max (f1_of s) (keys (model_scores s)) of
        Inl e \<Rightarrow> Inl e
      | Inr best_model_name \<Rightarrow>
          (case dict_get (trained_models s) best_model_name of
             Inl e \<Rightarrow> Inl e
           | Inr m \<Rightarrow> Inr (best_model_name, m)))"

subsection \<open>Saving the trained models\<close>

text \<open>
  The file system as \<^verbatim>\<open>save_models\<close> sees it: the set of directories and the content
  of each regular file, both by path. Paths are compared as strings; links,
  permissions and the parents of the output directory are not modelled.

  \<^verbatim>\<open>os.makedirs(path, exist_ok=True)\<close> creates the directory when it is absent and
  returns normally when it is already a directory; a regular file of that name is a
  \<^verbatim>\<open>FileExistsError\<close> whatever \<^verbatim>\<open>exist_ok\<close> says, and the empty path is a
  \<^verbatim>\<open>FileNotFoundError\<close>. \<^verbatim>\<open>joblib.dump(model, filename)\<close> opens the file for writing,
  which truncates an existing file and fails on a directory and in a directory that
  does not exist (the empty parent is the working directory); the serialisation
  itself is taken to succeed. The default \<^verbatim>\<open>'models'\<close> of \<^verbatim>\<open>output_dir\<close> is left to the
  caller.
\<close>

record 'b filesystem =
  dirs :: "string set"
  files :: "string \<rightharpoonup> 'b"

definition os_makedirs :: "string \<Rightarrow> bool \<Rightarrow> 'b filesystem \<Rightarrow> exn + 'b filesystem" where
  "os_makedirs path exist_ok fs =
     (if path = [] then Inl (Exn ''FileNotFoundError'')
      else if files fs path \<noteq> None then Inl (Exn ''FileExistsError'')
      else if path \<in> dirs fs then (if exist_ok then Inr fs else Inl (Exn ''FileExistsError''))
      else Inr (fs\<lparr>dirs := insert path (dirs fs)\<rparr>))"

definition parent_dir :: "string \<Rightarrow> string" where
  "parent_dir path = rev (drop 1 (dropWhile (\<lambda>c. c \<noteq> CHR ''/'') (rev path)))"

definition joblib_dump ::
  "('m, 'x, 'b) env \<Rightarrow> 'm \<Rightarrow> string \<Rightarrow> 'b filesystem \<Rightarrow> exn + 'b filesystem" where
  "joblib_dump E model filename fs =
     (if filename \<in> dirs fs then Inl (Exn ''IsADirectoryError'')
      else if parent_dir filename \<noteq> [] \<and> parent_dir filename \<notin> dirs fs
      then Inl (Exn ''FileNotFoundError'')
      else Inr (fs\<lparr>files := (files fs)(filename \<mapsto> pickle E model)\<rparr>))"

definition model_path :: "string \<Rightarrow> string \<Rightarrow> string" where
  "model_path output_dir name = output_dir @ ''/'' @ name @ ''_model.pkl''"

fun save_loop ::
  "('m, 'x, 'b) env \<Rightarrow> string \<Rightarrow> (string \<times> 'm) list \<Rightarrow> 'b filesystem \<Rightarrow> 'b filesystem \<times> exn option" where
  "save_loop E output_dir [] fs = (fs, None)"
| "save_loop E output_dir ((name, model) # rest) fs =
     (case joblib_dump E model (model_path output_dir name) fs of
        Inl e \<Rightarrow> (fs, Some e)
      | Inr fs' \<Rightarrow> save_loop E output_dir rest fs')"

definition save_models ::
  "('m, 'x, 'b) env \<Rightarrow> 'm predictor \<Rightarrow> string \<Rightarrow> 'b filesystem \<Rightarrow> 'b filesystem \<times> exn option" where
  "save_models E s output_dir fs =
     (case os_makedirs output_dir True fs of
        Inl e \<Rightarrow> (fs, Some e)
      | Inr fs1 \<Rightarrow> save_loop E output_dir (trained_models s) fs1)"


subsection \<open>The performance report\<close>

text \<open>
  \<^verbatim>\<open>str.upper\<close> on ASCII letters, and the format specification \<^verbatim>\<open>.3f\<close>: the value
  rounded to three decimals (ties to even), with a minus sign for a negative value.
\<close>

definition upper_char :: "char \<Rightarrow> char" where
  "upper_char c =
     (let n = (of_char c :: nat) in if 97 \<le> n \<and> n \<le> 122 then char_of (n - 32) else c)"

definition py_upper :: "string \<Rightarrow> string" where
  "py_upper s = map upper_char s"

definition digit_char :: "nat \<Rightarrow> char" where
  "digit_char d = char_of (48 + d)"

fun show_nat :: "nat \<Rightarrow> string" where
  "show_nat n = (if n < 10 then [digit_char n] else show_nat (n div 10) @ [digit_char (n mod 10)])"

definition round_half_even :: "real \<Rightarrow> int" where
  "round_half_even x =
     (let f = \<lfloor>x\<rfloor>; d = x - of_int f
      in if d < 1 / 2 then f else if d > 1 / 2 then f + 1 else if even f then f else f + 1)"

definition fmt3 :: "real \<Rightarrow> string" where
  "fmt3 r =
     (let n = nat (round_half_even (\<bar>r\<bar> * 1000))
      in (if r < 0 then ''-'' else []) @ show_nat (n div 1000) @ ''.'' @
         [digit_char (n div 100 mod 10), digit_char (n div 10 mod 10), digit_char (n mod 10)])"

definition newline :: string where
  "newline = [CHR 0x0A]"

text \<open>The plus-minus sign of the source is one code point, two bytes in UTF-8.\<close>

definition plus_minus :: string where
  "plus_minus = [CHR 0xC2, CHR 0xB1]"

fun py_join :: "string \<Rightarrow> string list \<Rightarrow> string" where
  "py_join sep [] = []"
| "py_join sep [x] = x"
| "py_join sep (x # y # ys) = x @ sep @ py_join sep (y # ys)"

definition report_header :: "string list" where
  "report_header = [''Model Performance Report'', replicate 50 CHR ''='']"

definition report_block :: "string \<times> scores \<Rightarrow> string list" where
  "report_block item =
     (case item of (name, sc) \<Rightarrow>
        [newline @ py_upper name @ '':'',
         ''  Accuracy:  '' @ fmt3 (accuracy sc),
         ''  Precision: '' @ fmt3 (precision sc),
         ''  Recall:    '' @ fmt3 (recall sc),
         ''  F1 Score:  '' @ fmt3 (f1 sc),
         ''  CV Score:  '' @ fmt3 (cv_mean sc) @ '' '' @ plus_minus @ '' '' @ fmt3 (cv_std sc)])"

definition report_lines :: "'m predictor \<Rightarrow> string list" where
  "report_lines s = report_header @ concat (map report_block (model_scores s))"

definition generate_report :: "'m predictor \<Rightarrow> string" where
  "generate_report s = py_join newline (report_lines s)"

subsection \<open>Sequences of calls\<close>

text \<open>
  A client of the class calls its four methods in any order. The world is the
  predictor object and the file system; a method that raises keeps the changes it made
  before. \<^verbatim>\<open>get_best_model\<close> and \<^verbatim>\<open>generate_report\<close> assign to no attribute and write
  no file, \<^verbatim>\<open>save_models\<close> assigns to no attribute.
\<close>

datatype 'x call =
    Train_models "'x list" "int list"
  | Get_best_model
  | Save_models string
  | Generate_report

fun do_call ::
  "('m, 'x, 'b) env \<Rightarrow> 'x call \<Rightarrow> 'm predictor \<times> 'b filesystem \<Rightarrow> 'm predictor \<times> 'b filesystem" where
  "do_call E (Train_models X y) (s, fs) = (fst (train_models E s X y), fs)"
| "do_call E Get_best_model (s, fs) = (s, fs)"
| "do_call E (Save_models output_dir) (s, fs) = (s, fst (save_models E s output_dir fs))"
| "do_call E Generate_report (s, fs) = (s, fs)"

fun run ::
  "('m, 'x, 'b) env \<Rightarrow> 'x call list \<Rightarrow> 'm predictor \<times> 'b filesystem \<Rightarrow> 'm predictor \<times> 'b filesystem" where
  "run E [] w = w"
| "run E (c # cs) w = run E cs (do_call E c w)"


section \<open>The library functions behind the parameters\<close>

subsection \<open>The stratified split\<close>

text \<open>
  Modelled from the spec: \<^verbatim>\<open>train_test_split\<close> belongs to scikit-learn and is not in
  the repository. Sections 4.1 and 9 of the specification: the split takes an explicit
  seed and then reads no hidden generator state; the test fraction lies strictly
  between 0 and 1; the split fails when a class has fewer than two members or when a
  subset would be empty. The source names no exception class of its own, so the
  failure is the \<^verbatim>\<open>ValueError\<close> that the library raises. Two more failures of the library
  are kept: arrays of different lengths, and fewer training or test rows than classes.

  The rows are partitioned by a random generator. With \<^verbatim>\<open>random_state=None\<close> the
  generator is the global one of numpy, whose state \<open>g\<close> the call reads and advances;
  with an integer a fresh generator is seeded from it and the global one is not touched.
  The number of test rows is the test size times the number of rows, rounded up. How
  the generator draws the partition is a parameter.
\<close>

record ('x, 'g) sampler =
  seeded :: "nat \<Rightarrow> 'g"
  shuffle_split :: "'g \<Rightarrow> 'x list \<Rightarrow> int list \<Rightarrow> int list option \<Rightarrow> nat \<Rightarrow> nat \<Rightarrow> 'x split \<times> 'g"

definition n_test_rows :: "real \<Rightarrow> nat \<Rightarrow> nat" where
  "n_test_rows test_size n_samples = nat \<lceil>test_size * real n_samples\<rceil>"

definition n_train_rows :: "real \<Rightarrow> nat \<Rightarrow> nat" where
  "n_train_rows test_size n_samples = n_samples - n_test_rows test_size n_samples"

definition too_few_per_class :: "int list option \<Rightarrow> nat \<Rightarrow> nat \<Rightarrow> bool" where
  "too_few_per_class stratify n_train n_test =
     (case stratify of
        None \<Rightarrow> False
      | Some labels \<Rightarrow>
          list_ex (\<lambda>c. count_list labels c < 2) (remdups labels) \<or>
          n_train < length (remdups labels) \<or> n_test < length (remdups labels))"

definition sk_train_test_split ::
  "('x, 'g) sampler \<Rightarrow> 'g \<Rightarrow> 'x list \<Rightarrow> int list \<Rightarrow> real \<Rightarrow> nat option \<Rightarrow> int list option \<Rightarrow>
     (exn + 'x split) \<times> 'g" where
  "sk_train_test_split R g X y test_size random_state stratify =
     (let n_samples = length X;
          n_test = n_test_rows test_size n_samples;
          n_train = n_train_rows test_size n_samples
      in if length y \<noteq> n_samples \<or> (case stratify of None \<Rightarrow> False | Some l \<Rightarrow> length l \<noteq> n_samples)
         then (Inl (Exn ''ValueError''), g)
         else if test_size \<le> 0 \<or> 1 \<le> test_size then (Inl (Exn ''ValueError''), g)
         else if n_train = 0 then (Inl (Exn ''ValueError''), g)
         else if too_few_per_class stratify n_train n_test then (Inl (Exn ''ValueError''), g)
         else (case random_state of
                 Some seed \<Rightarrow>
                   (Inr (fst (shuffle_split R (seeded R seed) X y stratify n_train n_test)), g)
               | None \<Rightarrow>
                   (case shuffle_split R g X y stratify n_train n_test of
                      (sp, g') \<Rightarrow> (Inr sp, g'))))"

text \<open>
  The environment whose \<^verbatim>\<open>train_test_split\<close> is the library function, called while the
  global generator is in state \<open>g\<close>.
\<close>

definition with_split ::
  "('m, 'x, 'b) env \<Rightarrow> ('x, 'g) sampler \<Rightarrow> 'g \<Rightarrow> ('m, 'x, 'b) env" where
  "with_split E R g =
     E\<lparr>train_test_split :=
         (\<lambda>X y test_size random_state stratify.
            fst (sk_train_test_split R g X y test_size random_state stratify))\<rparr>"

subsection \<open>The metrics\<close>











section \<open>A concrete environment\<close>

text \<open>
  A small environment on which the theorems below are instantiated. An estimator is
  a hyperparameter and a flag saying whether it has been fitted; hyperparameter 0 is
  malformed and makes \<^verbatim>\<open>fit\<close> raise. A row has one integer feature.
\<close>

definition ex_env :: "(nat \<times> bool, int, string) env" where
  "ex_env =
     \<lparr>fit = (\<lambda>m X y. case m of (h, b) \<Rightarrow>
               if h = 0 then ((h, b), Some (Exn ''ValueError'')) else ((h, True), None)),
      predict = (\<lambda>m X. case m of (h, b) \<Rightarrow> Inr (map (\<lambda>x. if h < 5 then x else 0) X)),
      train_test_split = (\<lambda>X y test_size random_state stratify.
         case (X, y) of
           (x # x' # xs, l # l' # ls) \<Rightarrow>
             Inr \<lparr>X_train = x' # xs, X_test = [x], y_train = l' # ls, y_test = [l]\<rparr>
         | _ \<Rightarrow> Inl (Exn ''ValueError'')),
      accuracy_score = (\<lambda>yt yp. Inr (if yt = yp then 1 else 0)),
      precision_score = (\<lambda>yt yp average. Inr (if yt = yp then 1 else 0)),
      recall_score = (\<lambda>yt yp average. Inr (if yt = yp then 1 else 0)),
      f1_score = (\<lambda>yt yp average. Inr (if yt = yp then 1 else 0)),
      cross_val_score = (\<lambda>m X y cv. Inr (replicate cv 1)),
      pickle = (\<lambda>m. case m of (h, b) \<Rightarrow> show_nat h)\<rparr>"

definition ex_registry :: "(string, nat \<times> bool) dict" where
  "ex_registry = [(''rf'', (7, False)), (''svm'', (2, False)), (''nn'', (4, False))]"

definition ex_bad_registry :: "(string, nat \<times> bool) dict" where
  "ex_bad_registry = [(''rf'', (7, False)), (''bad'', (0, False)), (''svm'', (2, False))]"

definition ex_failing_registry :: "(string, nat \<times> bool) dict" where
  "ex_failing_registry = [(''bad1'', (0, False)), (''bad2'', (0, False))]"

definition ex_X :: "int list" where
  "ex_X = [1, 0, 1, 0]"

definition ex_y :: "int list" where
  "ex_y = [1, 0, 1, 0]"

text \<open>
  A sampler whose generator state is a counter: the rows are rotated by the counter,
  the first rows then go to the test set, and every draw advances the counter.
\<close>

definition ex_sampler :: "(int, nat) sampler" where
  "ex_sampler =
     \<lparr>seeded = (\<lambda>seed. seed),
      shuffle_split = (\<lambda>g X y stratify n_train n_test.
         (\<lparr>X_train = drop n_test (drop g X @ take g X),
           X_test = take n_test (drop g X @ take g X),
           y_train = drop n_test (drop g y @ take g y),
           y_test = take n_test (drop g y @ take g y)\<rparr>, Suc g))\<rparr>"

definition ex_fs :: "string filesystem" where
  "ex_fs = \<lparr>dirs = {}, files = Map.empty\<rparr>"


definition ex_trained :: "(nat \<times> bool) predictor" where
  "ex_trained = fst (run ex_env [Train_models ex_X ex_y] (init ex_registry, ex_fs))"

section \<open>Consistency of the two result dictionaries\<close>

text \<open>
  The registry keeps its keys, both result dictionaries hold the same keys in the same
  order, and these keys are an initial segment of the registry's keys.
\<close>

definition consistent :: "(string, 'm) dict \<Rightarrow> 'm predictor \<Rightarrow> bool" where
  "consistent registry s \<longleftrightarrow>
     keys (models s) = keys registry \<and>
     keys (trained_models s) = keys (model_scores s) \<and>
     keys (model_scores s) = take (length (model_scores s)) (keys registry)"

section \<open>Properties\<close>

subsection \<open>Dictionaries\<close>

lemma keys_dict_set:
  "keys (dict_set k v d) = (if k \<in> set (keys d) then keys d else keys d @ [k])"
  by (induction d) (force simp: keys_def)+

lemma length_keys [simp]: "length (keys d) = length d"
  by (simp add: keys_def)

text \<open>The registry of the source has four different names.\<close>

lemma default_models_distinct: "distinct (keys (default_models rf svc mlp gb))"
  by (simp add: default_models_def keys_def)

lemma dict_get_item:
  "distinct (keys d) \<Longrightarrow> (k, v) \<in> set d \<Longrightarrow> dict_get d k = Inr v"
  by (induction d) (force simp: keys_def)+

lemma dict_get_missing: "k \<notin> set (keys d) \<Longrightarrow> dict_get d k = Inl (Exn ''KeyError'')"
  by (induction d) (auto simp: keys_def)

lemma train_one_models:
  "train_one E sp name model s = (s', r) \<Longrightarrow> \<exists>m'. models s' = dict_set name m' (models s)"
  by (auto simp: train_one_def Let_def split: prod.splits option.splits sum.splits)

lemma train_one_raised:
  "train_one E sp name model s = (s', Some e) \<Longrightarrow>
     trained_models s' = trained_models s \<and> model_scores s' = model_scores s"
  by (auto simp: train_one_def Let_def split: prod.splits option.splits sum.splits)

lemma train_one_stored:
  "train_one E sp name model s = (s', None) \<Longrightarrow>
     \<exists>m' sc. trained_models s' = dict_set name m' (trained_models s) \<and>
             model_scores s' = dict_set name sc (model_scores s)"
  by (auto simp: train_one_def Let_def split: prod.splits option.splits sum.splits)

lemma take_Suc_keys:
  assumes "distinct ks" "i < length ks"
  shows "ks ! i \<notin> set (take i ks)" "take i ks @ [ks ! i] = take (Suc i) ks"
  using assms by (auto simp: take_Suc_conv_app_nth in_set_conv_nth nth_eq_iff_index_eq)

lemma train_one_consistent:
  assumes dist: "distinct (keys registry)"
    and i: "i < length registry" and name: "name = keys registry ! i"
    and consistent: "consistent registry s" and le: "i \<le> length (model_scores s)"
    and step: "train_one E sp name model s = (s', r)"
  shows "consistent registry s'"
    and "length (model_scores s) \<le> length (model_scores s')"
    and "r = None \<Longrightarrow> Suc i \<le> length (model_scores s')"
proof -
  let ?ks = "keys registry"
  from i name have mem: "name \<in> set ?ks" by simp
  from train_one_models [OF step] consistent mem have km: "keys (models s') = ?ks"
    by (auto simp: consistent_def keys_dict_set)
  have "consistent registry s' \<and> length (model_scores s) \<le> length (model_scores s') \<and>
        (r = None \<longrightarrow> Suc i \<le> length (model_scores s'))"
  proof (cases r)
    case (Some e)
    with step have "train_one E sp name model s = (s', Some e)" by simp
    from train_one_raised [OF this] consistent km Some show ?thesis by (simp add: consistent_def)
  next
    case None
    with step have "train_one E sp name model s = (s', None)" by simp
    from train_one_stored [OF this] obtain m' sc where
      tm: "trained_models s' = dict_set name m' (trained_models s)" and
      ms: "model_scores s' = dict_set name sc (model_scores s)" by blast
    let ?L = "length (model_scores s)"
    from consistent have al: "keys (trained_models s) = keys (model_scores s)"
      and pre: "keys (model_scores s) = take ?L ?ks" by (simp_all add: consistent_def)
    show ?thesis
    proof (cases "i < ?L")
      case True
      with i name pre have "name \<in> set (keys (model_scores s))"
        by (metis in_set_conv_nth length_keys nth_take)
      with al have k: "keys (trained_models s') = keys (trained_models s)"
          "keys (model_scores s') = keys (model_scores s)"
        by (simp_all add: tm ms keys_dict_set)
      from k(2) have "length (model_scores s') = ?L" by (metis length_keys)
      with k al pre km True None show ?thesis by (simp add: consistent_def)
    next
      case False
      with le have eq: "?L = i" by simp
      from take_Suc_keys [OF dist] i name pre eq
      have nin: "name \<notin> set (keys (model_scores s))"
        and app: "keys (model_scores s) @ [name] = take (Suc i) ?ks" by simp_all
      with al have k: "keys (trained_models s') = take (Suc i) ?ks"
          "keys (model_scores s') = take (Suc i) ?ks"
        by (simp_all add: tm ms keys_dict_set)
      from k(2) i have "length (model_scores s') = Suc i"
        by (metis length_keys length_take min.absorb2 Suc_leI)
      with k km eq None show ?thesis by (simp add: consistent_def)
    qed
  qed
  then show "consistent registry s'" "length (model_scores s) \<le> length (model_scores s')"
    "r = None \<Longrightarrow> Suc i \<le> length (model_scores s')" by simp_all
qed

lemma train_loop_consistent:
  assumes dist: "distinct (keys registry)"
  shows "keys items = drop i (keys registry) \<Longrightarrow> consistent registry s \<Longrightarrow>
         i \<le> length (model_scores s) \<Longrightarrow> train_loop E sp items s = (s', r) \<Longrightarrow>
         consistent registry s'"
proof (induction items arbitrary: i s)
  case Nil
  then show ?case by simp
next
  case (Cons item rest)
  obtain name model where item: "item = (name, model)" by (cases item)
  obtain s1 r1 where one: "train_one E sp name model s = (s1, r1)" by fastforce
  from Cons.prems(1) have i: "i < length registry"
    by (metis drop_eq_Nil2 length_keys keys_def list.simps(3) list.map_disc_iff not_le_imp_less)
  from Cons.prems(1) item have name: "name = keys registry ! i"
    by (metis Cons_nth_drop_Suc i length_keys keys_def fst_conv list.inject list.simps(9))
  from Cons.prems(1) have rest: "keys rest = drop (Suc i) (keys registry)"
    by (metis Cons_nth_drop_Suc i length_keys keys_def list.inject list.simps(9))
  note t = train_one_consistent [OF dist i name Cons.prems(2) Cons.prems(3) one]
  show ?case
  proof (cases r1)
    case None
    with Cons.prems(4) item one have "train_loop E sp rest s1 = (s', r)" by simp
    from Cons.IH [OF rest t(1) t(3) [OF None] this] show ?thesis .
  next
    case (Some e)
    with Cons.prems(4) item one have "s' = s1" by simp
    with t(1) show ?thesis by simp
  qed
qed

lemma consistent_init: "consistent registry (init registry)"
  by (simp add: consistent_def init_def keys_def)

lemma train_models_consistent:
  assumes "distinct (keys registry)" "consistent registry s"
  shows "consistent registry (fst (train_models E s X y))"
proof (cases "train_test_split E X y (1 / 5) (Some 42) (Some y)")
  case (Inl e)
  with assms show ?thesis by (simp add: train_models_def)
next
  case (Inr sp)
  obtain s' r where l: "train_loop E sp (models s) s = (s', r)" by fastforce
  from assms(2) have "keys (models s) = drop 0 (keys registry)" by (simp add: consistent_def)
  from train_loop_consistent [OF assms(1) this assms(2) _ l] Inr l show ?thesis
    by (simp add: train_models_def)
qed

lemma run_consistent:
  assumes "distinct (keys registry)"
  shows "consistent registry (fst w) \<Longrightarrow> consistent registry (fst (run E cs w))"
proof (induction cs arbitrary: w)
  case Nil
  then show ?case by simp
next
  case (Cons c cs)
  obtain s fs where w: "w = (s, fs)" by (cases w)
  from Cons.prems w train_models_consistent [OF assms] have "consistent registry (fst (do_call E c w))"
    by (cases c) simp_all
  from Cons.IH [OF this] show ?case by simp
qed

subsection \<open>The two result dictionaries stay aligned\<close>







subsection \<open>Selection of the best model\<close>

lemma max_loop_items:
  assumes "\<forall>p\<in>set items. key (fst p) = Inr (g p)"
  shows "\<exists>b. max_loop key (fst b0) (g b0) (map fst items) = Inr (fst b) \<and>
     ((b = b0 \<and> (\<forall>p\<in>set items. g p \<le> g b0)) \<or>
      (\<exists>pre post. items = pre @ b # post \<and> g b0 < g b \<and>
         (\<forall>p\<in>set pre. g p < g b) \<and> (\<forall>p\<in>set post. g p \<le> g b)))"
  using assms
proof (induction items arbitrary: b0)
  case Nil
  show ?case by (rule exI [of _ b0]) simp
next
  case (Cons x xs)
  from Cons.prems have kx: "key (fst x) = Inr (g x)" and rest: "\<forall>p\<in>set xs. key (fst p) = Inr (g p)"
    by simp_all
  show ?case
  proof (cases "g b0 < g x")
    case True
    from Cons.IH [OF rest, of x] obtain b where
      run: "max_loop key (fst x) (g x) (map fst xs) = Inr (fst b)" and
      alt: "(b = x \<and> (\<forall>p\<in>set xs. g p \<le> g x)) \<or>
        (\<exists>pre post. xs = pre @ b # post \<and> g x < g b \<and>
           (\<forall>p\<in>set pre. g p < g b) \<and> (\<forall>p\<in>set post. g p \<le> g b))" by blast
    from alt have "\<exists>pre post. x # xs = pre @ b # post \<and> g b0 < g b \<and>
           (\<forall>p\<in>set pre. g p < g b) \<and> (\<forall>p\<in>set post. g p \<le> g b)"
    proof
      assume "b = x \<and> (\<forall>p\<in>set xs. g p \<le> g x)"
      with True have "x # xs = [] @ b # xs \<and> g b0 < g b \<and>
           (\<forall>p\<in>set []. g p < g b) \<and> (\<forall>p\<in>set xs. g p \<le> g b)" by simp
      then show ?thesis by blast
    next
      assume "\<exists>pre post. xs = pre @ b # post \<and> g x < g b \<and>
           (\<forall>p\<in>set pre. g p < g b) \<and> (\<forall>p\<in>set post. g p \<le> g b)"
      then obtain pre post where "xs = pre @ b # post" "g x < g b"
        "\<forall>p\<in>set pre. g p < g b" "\<forall>p\<in>set post. g p \<le> g b" by blast
      with True have "x # xs = (x # pre) @ b # post \<and> g b0 < g b \<and>
           (\<forall>p\<in>set (x # pre). g p < g b) \<and> (\<forall>p\<in>set post. g p \<le> g b)" by simp
      then show ?thesis by blast
    qed
    with run kx True show ?thesis by (intro exI [of _ b]) simp
  next
    case False
    from Cons.IH [OF rest, of b0] obtain b where
      run: "max_loop key (fst b0) (g b0) (map fst xs) = Inr (fst b)" and
      alt: "(b = b0 \<and> (\<forall>p\<in>set xs. g p \<le> g b0)) \<or>
        (\<exists>pre post. xs = pre @ b # post \<and> g b0 < g b \<and>
           (\<forall>p\<in>set pre. g p < g b) \<and> (\<forall>p\<in>set post. g p \<le> g b))" by blast
    from alt have "(b = b0 \<and> (\<forall>p\<in>set (x # xs). g p \<le> g b0)) \<or>
        (\<exists>pre post. x # xs = pre @ b # post \<and> g b0 < g b \<and>
           (\<forall>p\<in>set pre. g p < g b) \<and> (\<forall>p\<in>set post. g p \<le> g b))"
    proof
      assume "b = b0 \<and> (\<forall>p\<in>set xs. g p \<le> g b0)"
      with False show ?thesis by auto
    next
      assume "\<exists>pre post. xs = pre @ b # post \<and> g b0 < g b \<and>
           (\<forall>p\<in>set pre. g p < g b) \<and> (\<forall>p\<in>set post. g p \<le> g b)"
      then obtain pre post where "xs = pre @ b # post" "g b0 < g b"
        "\<forall>p\<in>set pre. g p < g b" "\<forall>p\<in>set post. g p \<le> g b" by blast
      with False have "x # xs = (x # pre) @ b # post \<and> g b0 < g b \<and>
           (\<forall>p\<in>set (x # pre). g p < g b) \<and> (\<forall>p\<in>set post. g p \<le> g b)" by simp
      then show ?thesis by blast
    qed
    with run kx False show ?thesis by (intro exI [of _ b]) simp
  qed
qed

lemma py_max_items:
  assumes "\<forall>p\<in>set items. key (fst p) = Inr (g p)" and "items \<noteq> []"
  shows "\<exists>pre b post. items = pre @ b # post \<and> py_max key (keys items) = Inr (fst b) \<and>
         (\<forall>p\<in>set pre. g p < g b) \<and> (\<forall>p\<in>set post. g p \<le> g b)"
proof -
  from assms(2) obtain b0 rest where items: "items = b0 # rest" by (cases items) auto
  with assms(1) have k0: "key (fst b0) = Inr (g b0)" and
    rest: "\<forall>p\<in>set rest. key (fst p) = Inr (g p)" by simp_all
  from max_loop_items [OF rest, of b0] obtain b where
    run: "max_loop key (fst b0) (g b0) (map fst rest) = Inr (fst b)" and
    alt: "(b = b0 \<and> (\<forall>p\<in>set rest. g p \<le> g b0)) \<or>
      (\<exists>pre post. rest = pre @ b # post \<and> g b0 < g b \<and>
         (\<forall>p\<in>set pre. g p < g b) \<and> (\<forall>p\<in>set post. g p \<le> g b))" by blast
  from run k0 items have m: "py_max key (keys items) = Inr (fst b)"
    by (simp add: py_max_def keys_def)
  from alt show ?thesis
  proof
    assume "b = b0 \<and> (\<forall>p\<in>set rest. g p \<le> g b0)"
    with items m have "items = [] @ b # rest \<and> py_max key (keys items) = Inr (fst b) \<and>
         (\<forall>p\<in>set []. g p < g b) \<and> (\<forall>p\<in>set rest. g p \<le> g b)" by simp
    then show ?thesis by blast
  next
    assume "\<exists>pre post. rest = pre @ b # post \<and> g b0 < g b \<and>
         (\<forall>p\<in>set pre. g p < g b) \<and> (\<forall>p\<in>set post. g p \<le> g b)"
    then obtain pre post where "rest = pre @ b # post" "g b0 < g b"
      "\<forall>p\<in>set pre. g p < g b" "\<forall>p\<in>set post. g p \<le> g b" by blast
    with items m have "items = (b0 # pre) @ b # post \<and> py_max key (keys items) = Inr (fst b) \<and>
         (\<forall>p\<in>set (b0 # pre). g p < g b) \<and> (\<forall>p\<in>set post. g p \<le> g b)" by simp
    then show ?thesis by blast
  qed
qed

lemma f1_of_item:
  "distinct (keys (model_scores s)) \<Longrightarrow> p \<in> set (model_scores s) \<Longrightarrow>
   f1_of s (fst p) = Inr (f1 (snd p))"
  using dict_get_item [of "model_scores s" "fst p" "snd p"] by (simp add: f1_of_def)

lemma dict_get_nth:
  assumes "distinct (keys d)" "i < length d"
  shows "dict_get d (keys d ! i) = Inr (snd (d ! i))"
proof -
  from assms(2) have "(keys d ! i, snd (d ! i)) \<in> set d" by (simp add: keys_def)
  from dict_get_item [OF assms(1) this] show ?thesis .
qed

lemma get_best_model_consistent:
  assumes dist: "distinct (keys (model_scores s))"
    and al: "keys (trained_models s) = keys (model_scores s)"
    and ne: "model_scores s \<noteq> []"
  shows "\<exists>pre name sc post m.
      model_scores s = pre @ (name, sc) # post \<and>
      get_best_model s = Inr (name, m) \<and>
      trained_models s ! length pre = (name, m) \<and>
      (\<forall>p \<in> set pre. f1 (snd p) < f1 sc) \<and>
      (\<forall>p \<in> set post. f1 (snd p) \<le> f1 sc)"
proof -
  from f1_of_item [OF dist]
  have "\<forall>p\<in>set (model_scores s). f1_of s (fst p) = Inr (f1 (snd p))" by blast
  from py_max_items [OF this ne] obtain pre b post where
    d: "model_scores s = pre @ b # post" and
    m: "py_max (f1_of s) (keys (model_scores s)) = Inr (fst b)" and
    lt: "\<forall>p\<in>set pre. f1 (snd p) < f1 (snd b)" and
    le: "\<forall>p\<in>set post. f1 (snd p) \<le> f1 (snd b)" by blast
  let ?i = "length pre"
  from d have i: "?i < length (model_scores s)" by simp
  with al have i': "?i < length (trained_models s)" by (metis length_keys)
  from d have kb: "keys (model_scores s) ! ?i = fst b" by (simp add: keys_def nth_append)
  with al have kt: "keys (trained_models s) ! ?i = fst b" by simp
  from dist al have "distinct (keys (trained_models s))" by simp
  from dict_get_nth [OF this i'] kt
  have g: "dict_get (trained_models s) (fst b) = Inr (snd (trained_models s ! ?i))" by simp
  from kt i' have "fst (trained_models s ! ?i) = fst b" by (simp add: keys_def)
  then have t: "trained_models s ! ?i = (fst b, snd (trained_models s ! ?i))"
    by (metis prod.collapse)
  from m g have "get_best_model s = Inr (fst b, snd (trained_models s ! ?i))"
    by (simp add: get_best_model_def)
  with d t lt le have "model_scores s = pre @ (fst b, snd b) # post \<and>
      get_best_model s = Inr (fst b, snd (trained_models s ! ?i)) \<and>
      trained_models s ! length pre = (fst b, snd (trained_models s ! ?i)) \<and>
      (\<forall>p \<in> set pre. f1 (snd p) < f1 (snd b)) \<and>
      (\<forall>p \<in> set post. f1 (snd p) \<le> f1 (snd b))" by simp
  then show ?thesis by blast
qed

lemma consistent_distinct:
  assumes "distinct (keys registry)" "consistent registry s"
  shows "distinct (keys (model_scores s))"
proof -
  from assms(2) have "keys (model_scores s) = take (length (model_scores s)) (keys registry)"
    by (simp add: consistent_def)
  with assms(1) show ?thesis by (metis distinct_take)
qed

text \<open>
  Claim C2. In every state the predictor can reach from \<^verbatim>\<open>__init__\<close> with at least one
  report stored (the source has no failed status, so every stored report is a non-failed
  one), \<^verbatim>\<open>get_best_model\<close> returns the identifier, and the trained model stored under
  it, of a report whose F1 is maximal: every report stored before it has a strictly
  smaller F1 and every report after it an F1 that is not greater, so of several reports
  with the maximal F1 the first is returned. The reports are stored in registry
  order: their identifiers are an initial segment of the registry's.
\<close>

theorem get_best_model_first_maximal_f1:
  assumes "distinct (keys registry)"
    and "s = fst (run E cs (init registry, fs))"
    and "model_scores s \<noteq> []"
  shows "\<exists>pre name sc post m.
      model_scores s = pre @ (name, sc) # post \<and>
      get_best_model s = Inr (name, m) \<and>
      trained_models s ! length pre = (name, m) \<and>
      (\<forall>p \<in> set pre. f1 (snd p) < f1 sc) \<and>
      (\<forall>p \<in> set post. f1 (snd p) \<le> f1 sc) \<and>
      keys (model_scores s) = take (length (model_scores s)) (keys registry)"
proof -
  have "consistent registry (fst (init registry, fs))" by (simp add: consistent_init)
  from run_consistent [OF assms(1) this] assms(2) have c: "consistent registry s" by simp
  then have al: "keys (trained_models s) = keys (model_scores s)"
    and pre: "keys (model_scores s) = take (length (model_scores s)) (keys registry)"
    by (simp_all add: consistent_def)
  from get_best_model_consistent [OF consistent_distinct [OF assms(1) c] al assms(3)] pre
  show ?thesis by blast
qed

lemma ex_trained_eval:
  "ex_trained =
     \<lparr>models = [(''rf'', (7, True)), (''svm'', (2, True)), (''nn'', (4, True))],
      trained_models = [(''rf'', (7, True)), (''svm'', (2, True)), (''nn'', (4, True))],
      model_scores =
        [(''rf'', \<lparr>accuracy = 0, precision = 0, recall = 0, f1 = 0, cv_mean = 1, cv_std = 0\<rparr>),
         (''svm'', \<lparr>accuracy = 1, precision = 1, recall = 1, f1 = 1, cv_mean = 1, cv_std = 0\<rparr>),
         (''nn'', \<lparr>accuracy = 1, precision = 1, recall = 1, f1 = 1, cv_mean = 1, cv_std = 0\<rparr>)]\<rparr>"
  by (simp add: ex_trained_def train_models_def ex_env_def init_def ex_registry_def ex_X_def
      ex_y_def train_one_def np_std_def np_mean_def sum_list_replicate)

theorem get_best_model_first_maximal_f1_witness:
  "distinct (keys ex_registry) \<and> model_scores ex_trained \<noteq> [] \<and>
   get_best_model ex_trained = Inr (''svm'', (2, True)) \<and>
   (\<exists>pre name sc post m.
      model_scores ex_trained = pre @ (name, sc) # post \<and>
      get_best_model ex_trained = Inr (name, m) \<and>
      trained_models ex_trained ! length pre = (name, m) \<and>
      (\<forall>p \<in> set pre. f1 (snd p) < f1 sc) \<and>
      (\<forall>p \<in> set post. f1 (snd p) \<le> f1 sc) \<and>
      keys (model_scores ex_trained) = take (length (model_scores ex_trained)) (keys ex_registry))"
proof -
  have d: "distinct (keys ex_registry)" by (simp add: ex_registry_def keys_def)
  have ne: "model_scores ex_trained \<noteq> []" by (simp add: ex_trained_eval)
  have b: "get_best_model ex_trained = Inr (''svm'', (2, True))"
    by (simp add: ex_trained_eval get_best_model_def py_max_def keys_def f1_of_def)
  from get_best_model_first_maximal_f1 [OF d ex_trained_def ne] d ne b show ?thesis by blast
qed

subsection \<open>A failing fit\<close>

lemma train_loop_append:
  "train_loop E sp (pre @ rest) s =
     (case train_loop E sp pre s of
        (s1, None) \<Rightarrow> train_loop E sp rest s1
      | (s1, Some e) \<Rightarrow> (s1, Some e))"
  by (induction pre arbitrary: s) (auto split: prod.splits option.splits)

lemma train_loop_stored_keys:
  "train_loop E sp items s = (s', None) \<Longrightarrow>
   set (keys (model_scores s')) = set (keys (model_scores s)) \<union> set (keys items)"
proof (induction items arbitrary: s)
  case Nil
  then show ?case by (simp add: keys_def)
next
  case (Cons item rest)
  obtain name model where item: "item = (name, model)" by (cases item)
  obtain s1 r1 where one: "train_one E sp name model s = (s1, r1)" by fastforce
  with Cons.prems item have r1: "r1 = None" and l: "train_loop E sp rest s1 = (s', None)"
    by (auto split: option.splits)
  from one r1 have "train_one E sp name model s = (s1, None)" by simp
  from train_one_stored [OF this]
  have "set (keys (model_scores s1)) = insert name (set (keys (model_scores s)))"
    by (auto simp: keys_dict_set split: if_splits)
  with Cons.IH [OF l] item show ?case by (auto simp: keys_def)
qed

lemma train_one_fit_raised:
  "fit E model (X_train sp) (y_train sp) = (model', Some e) \<Longrightarrow>
   train_one E sp name model s = (s\<lparr>models := dict_set name model' (models s)\<rparr>, Some e)"
  by (simp add: train_one_def)

text \<open>
  Claim C1, as the code has it. \<^verbatim>\<open>train_models\<close> has no handler: when the fit of a
  registry entry raises, after the entries before it were trained, the exception leaves
  \<^verbatim>\<open>train_models\<close>. The reports stored are those the predictor had and those of the
  entries before the failing one; called on a fresh predictor, neither the failing
  entry nor any later entry gets a report.
\<close>

theorem train_models_fit_failure_propagates:
  assumes split: "train_test_split E X y (1 / 5) (Some 42) (Some y) = Inr sp"
    and registry: "models s = pre @ (name, model) # post"
    and before: "train_loop E sp pre s = (s1, None)"
    and failure: "fit E model (X_train sp) (y_train sp) = (model', Some e)"
  shows "train_models E s X y = (s1\<lparr>models := dict_set name model' (models s1)\<rparr>, Some e) \<and>
         set (keys (model_scores (fst (train_models E s X y)))) =
           set (keys (model_scores s)) \<union> set (keys pre) \<and>
         (model_scores s = [] \<and> distinct (keys (models s)) \<longrightarrow>
            name \<notin> set (keys (model_scores (fst (train_models E s X y)))) \<and>
            set (keys post) \<inter> set (keys (model_scores (fst (train_models E s X y)))) = {})"
proof -
  from train_one_fit_raised [OF failure]
  have "train_loop E sp ((name, model) # post) s1 =
          (s1\<lparr>models := dict_set name model' (models s1)\<rparr>, Some e)" by simp
  with before have "train_loop E sp (pre @ (name, model) # post) s =
          (s1\<lparr>models := dict_set name model' (models s1)\<rparr>, Some e)"
    by (simp add: train_loop_append)
  with split registry
  have r: "train_models E s X y = (s1\<lparr>models := dict_set name model' (models s1)\<rparr>, Some e)"
    by (simp add: train_models_def)
  from train_loop_stored_keys [OF before] r
  have k: "set (keys (model_scores (fst (train_models E s X y)))) =
           set (keys (model_scores s)) \<union> set (keys pre)" by simp
  have "name \<notin> set (keys (model_scores (fst (train_models E s X y)))) \<and>
        set (keys post) \<inter> set (keys (model_scores (fst (train_models E s X y)))) = {}"
    if "model_scores s = []" "distinct (keys (models s))"
    using that k registry by (auto simp: keys_def)
  with r k show ?thesis by blast
qed

lemma ex_split:
  "train_test_split ex_env ex_X ex_y (1 / 5) (Some 42) (Some ex_y) =
     Inr \<lparr>X_train = [0, 1, 0], X_test = [1], y_train = [0, 1, 0], y_test = [1]\<rparr>"
  by (simp add: ex_env_def ex_X_def ex_y_def)

theorem train_models_fit_failure_propagates_witness:
  "train_test_split ex_env ex_X ex_y (1 / 5) (Some 42) (Some ex_y) =
     Inr \<lparr>X_train = [0, 1, 0], X_test = [1], y_train = [0, 1, 0], y_test = [1]\<rparr> \<and>
   models (init ex_bad_registry) = [(''rf'', (7, False))] @ (''bad'', (0, False)) # [(''svm'', (2, False))] \<and>
   fit ex_env (0, False) [0, 1, 0] [0, 1, 0] = ((0, False), Some (Exn ''ValueError'')) \<and>
   snd (train_models ex_env (init ex_bad_registry) ex_X ex_y) = Some (Exn ''ValueError'') \<and>
   set (keys (model_scores (fst (train_models ex_env (init ex_bad_registry) ex_X ex_y)))) = {''rf''}"
proof -
  let ?sp = "\<lparr>X_train = [0, 1, 0], X_test = [1], y_train = [0, 1, 0], y_test = [1::int]\<rparr>"
  let ?s1 = "\<lparr>models = [(''rf'', (7, True)), (''bad'', (0, False)), (''svm'', (2, False))],
      trained_models = [(''rf'', (7, True))],
      model_scores =
        [(''rf'', \<lparr>accuracy = 0, precision = 0, recall = 0, f1 = 0, cv_mean = 1, cv_std = 0\<rparr>)]\<rparr>"
  have r: "models (init ex_bad_registry) =
      [(''rf'', (7, False))] @ (''bad'', (0, False)) # [(''svm'', (2, False))]"
    by (simp add: init_def ex_bad_registry_def)
  have b: "train_loop ex_env ?sp [(''rf'', (7, False))] (init ex_bad_registry) = (?s1, None)"
    by (simp add: ex_env_def init_def ex_bad_registry_def train_one_def np_std_def np_mean_def
        sum_list_replicate)
  have f: "fit ex_env (0, False) (X_train ?sp) (y_train ?sp) = ((0, False), Some (Exn ''ValueError''))"
    by (simp add: ex_env_def)
  from train_models_fit_failure_propagates [OF ex_split r b f] ex_split r f
  show ?thesis by (simp add: init_def keys_def)
qed

text \<open>
  The claim as the specification states it fails on the registry \<^verbatim>\<open>rf, bad, svm\<close>
  whose second fit raises: the call ends with the exception, no report with a failed
  status is stored for \<^verbatim>\<open>bad\<close>, and \<^verbatim>\<open>svm\<close> is not trained.
\<close>

theorem train_models_fit_failure_counterexample:
  "snd (train_models ex_env (init ex_bad_registry) ex_X ex_y) = Some (Exn ''ValueError'') \<and>
   model_scores (fst (train_models ex_env (init ex_bad_registry) ex_X ex_y)) =
     [(''rf'', \<lparr>accuracy = 0, precision = 0, recall = 0, f1 = 0, cv_mean = 1, cv_std = 0\<rparr>)] \<and>
   keys ex_bad_registry = [''rf'', ''bad'', ''svm'']"
  by (simp add: train_models_def ex_env_def init_def ex_bad_registry_def ex_X_def
      ex_y_def train_one_def np_std_def np_mean_def sum_list_replicate keys_def)

subsection \<open>Selection without a report\<close>

lemma get_best_model_empty:
  "model_scores s = [] \<Longrightarrow> get_best_model s = Inl (Exn ''ValueError'')"
  by (simp add: get_best_model_def py_max_def keys_def)

text \<open>
  Claim C3, as the code has it. A report has no status, and a failed fit stores no
  report, so the collection in which every report is a failed one is the empty
  collection. In every state the predictor can reach, \<^verbatim>\<open>get_best_model\<close> raises exactly
  when no report is stored, and the exception is the \<^verbatim>\<open>ValueError\<close> of \<^verbatim>\<open>max\<close> on an
  empty sequence; with a report stored it returns an identifier and its model.
\<close>

theorem get_best_model_raises_iff_no_report:
  assumes "distinct (keys registry)"
    and "s = fst (run E cs (init registry, fs))"
  shows "(model_scores s = [] \<longrightarrow> get_best_model s = Inl (Exn ''ValueError'')) \<and>
         (model_scores s \<noteq> [] \<longrightarrow> (\<exists>name m. get_best_model s = Inr (name, m)))"
proof -
  have "consistent registry (fst (init registry, fs))" by (simp add: consistent_init)
  from run_consistent [OF assms(1) this] assms(2) have c: "consistent registry s" by simp
  then have al: "keys (trained_models s) = keys (model_scores s)"
    by (simp add: consistent_def)
  have "\<exists>name m. get_best_model s = Inr (name, m)" if "model_scores s \<noteq> []"
    using get_best_model_consistent [OF consistent_distinct [OF assms(1) c] al that] by blast
  with get_best_model_empty show ?thesis by blast
qed

theorem get_best_model_raises_iff_no_report_witness:
  "distinct (keys ex_registry) \<and>
   model_scores (fst (run ex_env [] (init ex_registry, ex_fs))) = [] \<and>
   get_best_model (fst (run ex_env [] (init ex_registry, ex_fs))) = Inl (Exn ''ValueError'') \<and>
   model_scores ex_trained \<noteq> [] \<and>
   (\<exists>name m. get_best_model ex_trained = Inr (name, m))"
proof -
  have d: "distinct (keys ex_registry)" by (simp add: ex_registry_def keys_def)
  have e: "model_scores (fst (run ex_env [] (init ex_registry, ex_fs))) = []"
    by (simp add: init_def)
  have ne: "model_scores ex_trained \<noteq> []" by (simp add: ex_trained_eval)
  from get_best_model_raises_iff_no_report [OF d refl, of ex_env "[]" ex_fs]
    get_best_model_raises_iff_no_report [OF d ex_trained_def] d e ne
  show ?thesis by blast
qed

text \<open>
  The claim as the specification states it fails on a registry whose two fits both
  raise: training ends with the first exception, no report is stored, and the selection
  raises \<^verbatim>\<open>ValueError\<close>, not \<^verbatim>\<open>NoViableModelError\<close>.
\<close>

theorem get_best_model_all_failed_counterexample:
  "snd (train_models ex_env (init ex_failing_registry) ex_X ex_y) = Some (Exn ''ValueError'') \<and>
   model_scores (fst (train_models ex_env (init ex_failing_registry) ex_X ex_y)) = [] \<and>
   get_best_model (fst (train_models ex_env (init ex_failing_registry) ex_X ex_y)) =
     Inl (Exn ''ValueError'') \<and>
   get_best_model (fst (train_models ex_env (init ex_failing_registry) ex_X ex_y)) \<noteq>
     Inl (Exn ''NoViableModelError'')"
  by (simp add: train_models_def ex_env_def init_def ex_failing_registry_def ex_X_def
      ex_y_def train_one_def get_best_model_def py_max_def keys_def)

subsection \<open>Saving the models\<close>















subsection \<open>The report\<close>

lemma length_report_block [simp]: "length (report_block item) = 6"
  by (cases item) (simp add: report_block_def)

lemma length_concat_blocks:
  "length (concat (map report_block items)) = 6 * length items"
  by (induction items) simp_all

lemma nth_block:
  "i < length items \<Longrightarrow>
   take 6 (drop (6 * i) (concat (map report_block items))) = report_block (items ! i)"
proof (induction items arbitrary: i)
  case Nil
  then show ?case by simp
next
  case (Cons item rest)
  show ?case
  proof (cases i)
    case 0
    then show ?thesis by simp
  next
    case (Suc j)
    with Cons.prems have "j < length rest" by simp
    from Cons.IH [OF this] Suc show ?thesis by simp
  qed
qed

lemma fmt3_three_decimals:
  "\<exists>pre a b c. fmt3 r = pre @ ''.'' @ [digit_char a, digit_char b, digit_char c] \<and>
                a < 10 \<and> b < 10 \<and> c < 10"
proof -
  let ?n = "nat (round_half_even (\<bar>r\<bar> * 1000))"
  have "fmt3 r = ((if r < 0 then ''-'' else []) @ show_nat (?n div 1000)) @ ''.'' @
      [digit_char (?n div 100 mod 10), digit_char (?n div 10 mod 10), digit_char (?n mod 10)] \<and>
      ?n div 100 mod 10 < 10 \<and> ?n div 10 mod 10 < 10 \<and> ?n mod 10 < 10"
    by (simp add: fmt3_def Let_def)
  then show ?thesis by blast
qed

text \<open>
  Claim C9, as the code has it. In every state the predictor can reach,
  \<^verbatim>\<open>generate_report\<close> joins with newlines a header of two lines and one block of six
  lines per stored report, in the order of the registry. The block of a report is
  headed by the identifier in upper case and gives accuracy, precision, recall and F1
  and the cross-validation mean and deviation, each with three decimals. A report has
  no status and no failure reason, and none is shown.
\<close>

theorem generate_report_blocks:
  assumes "distinct (keys registry)"
    and "s = fst (run E cs (init registry, fs))"
  shows "generate_report s = py_join newline (report_lines s) \<and>
         length (report_lines s) = 2 + 6 * length (model_scores s) \<and>
         take 2 (report_lines s) = [''Model Performance Report'', replicate 50 CHR ''=''] \<and>
         (\<forall>i<length (model_scores s).
            take 6 (drop (2 + 6 * i) (report_lines s)) =
              [newline @ py_upper (fst (model_scores s ! i)) @ '':'',
               ''  Accuracy:  '' @ fmt3 (accuracy (snd (model_scores s ! i))),
               ''  Precision: '' @ fmt3 (precision (snd (model_scores s ! i))),
               ''  Recall:    '' @ fmt3 (recall (snd (model_scores s ! i))),
               ''  F1 Score:  '' @ fmt3 (f1 (snd (model_scores s ! i))),
               ''  CV Score:  '' @ fmt3 (cv_mean (snd (model_scores s ! i))) @ '' '' @
                 plus_minus @ '' '' @ fmt3 (cv_std (snd (model_scores s ! i)))] \<and>
            fst (model_scores s ! i) = keys registry ! i) \<and>
         (\<forall>r. \<exists>pre a b c. fmt3 r = pre @ ''.'' @ [digit_char a, digit_char b, digit_char c] \<and>
                a < 10 \<and> b < 10 \<and> c < 10)"
proof -
  have "consistent registry (fst (init registry, fs))" by (simp add: consistent_init)
  from run_consistent [OF assms(1) this] assms(2) have c: "consistent registry s" by simp
  then have pre: "keys (model_scores s) = take (length (model_scores s)) (keys registry)"
    by (simp add: consistent_def)
  have len: "length (report_lines s) = 2 + 6 * length (model_scores s)"
    by (simp add: report_lines_def report_header_def length_concat_blocks)
  have hd: "take 2 (report_lines s) = [''Model Performance Report'', replicate 50 CHR ''='']"
    by (simp add: report_lines_def report_header_def)
  have blk: "take 6 (drop (2 + 6 * i) (report_lines s)) = report_block (model_scores s ! i)"
    if "i < length (model_scores s)" for i
    using nth_block [OF that] by (simp add: report_lines_def report_header_def)
  have key: "fst (model_scores s ! i) = keys registry ! i"
    if "i < length (model_scores s)" for i
  proof -
    from that have "fst (model_scores s ! i) = keys (model_scores s) ! i" by (simp add: keys_def)
    also from pre that have "\<dots> = keys registry ! i" by (metis nth_take)
    finally show ?thesis .
  qed
  from len hd blk key fmt3_three_decimals show ?thesis
    by (simp add: generate_report_def report_block_def split_beta)
qed

lemma ex_fmt3: "fmt3 0 = ''0.000''" "fmt3 1 = ''1.000''"
  by code_simp+

lemma ex_upper: "py_upper ''rf'' = ''RF''" "py_upper ''svm'' = ''SVM''" "py_upper ''nn'' = ''NN''"
  by code_simp+

lemma ex_report_lines:
  "report_lines ex_trained =
     [''Model Performance Report'',
      ''=================================================='',
      newline @ ''RF:'',
      ''  Accuracy:  0.000'',
      ''  Precision: 0.000'',
      ''  Recall:    0.000'',
      ''  F1 Score:  0.000'',
      ''  CV Score:  1.000 '' @ plus_minus @ '' 0.000'',
      newline @ ''SVM:'',
      ''  Accuracy:  1.000'',
      ''  Precision: 1.000'',
      ''  Recall:    1.000'',
      ''  F1 Score:  1.000'',
      ''  CV Score:  1.000 '' @ plus_minus @ '' 0.000'',
      newline @ ''NN:'',
      ''  Accuracy:  1.000'',
      ''  Precision: 1.000'',
      ''  Recall:    1.000'',
      ''  F1 Score:  1.000'',
      ''  CV Score:  1.000 '' @ plus_minus @ '' 0.000'']"
  by (simp add: ex_trained_eval report_lines_def report_header_def report_block_def ex_fmt3 ex_upper
      eval_nat_numeral)

theorem generate_report_blocks_witness:
  "distinct (keys ex_registry) \<and>
   length (report_lines ex_trained) = 20 \<and>
   take 6 (drop 8 (report_lines ex_trained)) =
     [newline @ ''SVM:'',
      ''  Accuracy:  1.000'',
      ''  Precision: 1.000'',
      ''  Recall:    1.000'',
      ''  F1 Score:  1.000'',
      ''  CV Score:  1.000 '' @ plus_minus @ '' 0.000'']"
proof -
  have d: "distinct (keys ex_registry)" by (simp add: ex_registry_def keys_def)
  have i: "(1::nat) < length (model_scores ex_trained)" by (simp add: ex_trained_eval)
  from generate_report_blocks [OF d ex_trained_def] i
  have "take 6 (drop (2 + 6 * 1) (report_lines ex_trained)) =
      [newline @ py_upper (fst (model_scores ex_trained ! 1)) @ '':'',
       ''  Accuracy:  '' @ fmt3 (accuracy (snd (model_scores ex_trained ! 1))),
       ''  Precision: '' @ fmt3 (precision (snd (model_scores ex_trained ! 1))),
       ''  Recall:    '' @ fmt3 (recall (snd (model_scores ex_trained ! 1))),
       ''  F1 Score:  '' @ fmt3 (f1 (snd (model_scores ex_trained ! 1))),
       ''  CV Score:  '' @ fmt3 (cv_mean (snd (model_scores ex_trained ! 1))) @ '' '' @
         plus_minus @ '' '' @ fmt3 (cv_std (snd (model_scores ex_trained ! 1)))]"
    and "length (report_lines ex_trained) = 2 + 6 * length (model_scores ex_trained)"
    by blast+
  with d show ?thesis by (simp add: ex_trained_eval ex_fmt3 ex_upper)
qed

text \<open>
  The claim as the specification states it fails on the three reports of the example:
  the block of \<^verbatim>\<open>svm\<close> is the six lines below, with no status, and the identifier as
  registered occurs nowhere in the report.
\<close>

theorem generate_report_identifier_counterexample:
  "keys (model_scores ex_trained) = [''rf'', ''svm'', ''nn''] \<and>
   take 6 (drop 8 (report_lines ex_trained)) =
     [newline @ ''SVM:'',
      ''  Accuracy:  1.000'',
      ''  Precision: 1.000'',
      ''  Recall:    1.000'',
      ''  F1 Score:  1.000'',
      ''  CV Score:  1.000 '' @ plus_minus @ '' 0.000''] \<and>
   \<not> sublist ''svm'' (generate_report ex_trained)"
proof -
  have "\<not> sublist ''svm'' (generate_report ex_trained)"
    unfolding generate_report_def ex_report_lines by code_simp
  then show ?thesis by (simp add: ex_report_lines) (simp add: ex_trained_eval keys_def)
qed

subsection \<open>The split\<close>

lemma sk_split_seeded:
  "\<exists>r. sk_train_test_split R g X y test_size (Some seed) stratify = (r, g) \<and>
       sk_train_test_split R g' X y test_size (Some seed) stratify = (r, g')"
  by (simp add: sk_train_test_split_def Let_def)

lemma with_split_call:
  "train_test_split (with_split E R g) X y test_size random_state stratify =
     fst (sk_train_test_split R g X y test_size random_state stratify)"
  by (simp add: with_split_def)

lemma with_split_others:
  "fit (with_split E R g) = fit E" "predict (with_split E R g) = predict E"
  "accuracy_score (with_split E R g) = accuracy_score E"
  "precision_score (with_split E R g) = precision_score E"
  "recall_score (with_split E R g) = recall_score E"
  "f1_score (with_split E R g) = f1_score E"
  "cross_val_score (with_split E R g) = cross_val_score E"
  by (simp_all add: with_split_def)

lemma train_one_with_split:
  "train_one (with_split E R g) sp name model s = train_one E sp name model s"
  unfolding train_one_def with_split_others by (rule refl)

lemma train_loop_with_split:
  "train_loop (with_split E R g) sp items s = train_loop E sp items s"
  by (induction items arbitrary: s) (auto simp: train_one_with_split)

text \<open>
  Claim C5. Called with an integer seed, the split does not read the global generator
  and leaves it as it was: whatever the state of the global generator at each of two
  calls with the same dataset, test size and seed, both return the same partition (or
  both raise the same exception). \<^verbatim>\<open>train_models\<close> passes the seed 42 and the test size
  0.2, so its partition, and with it everything it computes, does not depend on the
  global generator either.
\<close>

theorem split_deterministic_for_fixed_seed:
  "fst (sk_train_test_split R g X y test_size (Some seed) stratify) =
     fst (sk_train_test_split R g' X y test_size (Some seed) stratify) \<and>
   snd (sk_train_test_split R g X y test_size (Some seed) stratify) = g \<and>
   train_test_split (with_split E R g) X y (1 / 5) (Some 42) (Some y) =
     train_test_split (with_split E R g') X y (1 / 5) (Some 42) (Some y) \<and>
   train_models (with_split E R g) s X y = train_models (with_split E R g') s X y"
proof -
  obtain r where a: "sk_train_test_split R g X y test_size (Some seed) stratify = (r, g)"
    and b: "sk_train_test_split R g' X y test_size (Some seed) stratify = (r, g')"
    using sk_split_seeded [of R g X y test_size seed stratify g'] by blast
  obtain r' where c: "sk_train_test_split R g X y (1 / 5) (Some 42) (Some y) = (r', g)"
    and d: "sk_train_test_split R g' X y (1 / 5) (Some 42) (Some y) = (r', g')"
    using sk_split_seeded [of R g X y "1 / 5" 42 "Some y" g'] by blast
  from c d have e: "train_test_split (with_split E R g) X y (1 / 5) (Some 42) (Some y) =
     train_test_split (with_split E R g') X y (1 / 5) (Some 42) (Some y)"
    by (simp add: with_split_call)
  have "models s = models s" ..
  with e have "train_models (with_split E R g) s X y = train_models (with_split E R g') s X y"
    by (simp add: train_models_def train_loop_with_split split: sum.splits)
  with a b e show ?thesis by simp
qed

text \<open>Without a seed the partition does depend on the global generator, which advances.\<close>

lemma split_without_seed_reads_the_generator:
  "fst (sk_train_test_split ex_sampler 0 [5, 6, 7, 8, 9, 10] [0, 0, 0, 1, 1, 1] (1 / 5) None None) \<noteq>
   fst (sk_train_test_split ex_sampler 1 [5, 6, 7, 8, 9, 10] [0, 0, 0, 1, 1, 1] (1 / 5) None None) \<and>
   snd (sk_train_test_split ex_sampler 0 [5, 6, 7, 8, 9, 10] [0, 0, 0, 1, 1, 1] (1 / 5) None None) = 1"
  by (simp add: sk_train_test_split_def ex_sampler_def n_test_rows_def n_train_rows_def
      too_few_per_class_def)

lemma sk_split_insufficient:
  assumes "(\<exists>c\<in>set y. count_list y c < 2) \<or>
           n_train_rows test_size (length X) = 0 \<or> n_test_rows test_size (length X) = 0"
  shows "fst (sk_train_test_split R g X y test_size random_state (Some y)) = Inl (Exn ''ValueError'')"
proof (cases "length y \<noteq> length X \<or> test_size \<le> 0 \<or> 1 \<le> test_size \<or>
              n_train_rows test_size (length X) = 0")
  case True
  then show ?thesis by (auto simp: sk_train_test_split_def Let_def)
next
  case False
  let ?n = "length X"
  from False have pos: "0 < test_size" and tr: "n_train_rows test_size ?n \<noteq> 0" by auto
  from tr have "?n \<noteq> 0" by (auto simp: n_train_rows_def)
  with pos have "0 < test_size * real ?n" by simp
  then have "n_test_rows test_size ?n \<noteq> 0" by (simp add: n_test_rows_def)
  with assms tr have "\<exists>c\<in>set y. count_list y c < 2" by blast
  then have "too_few_per_class (Some y) (n_train_rows test_size ?n) (n_test_rows test_size ?n)"
    by (auto simp: too_few_per_class_def list_ex_iff)
  with False show ?thesis by (simp add: sk_train_test_split_def Let_def)
qed

theorem split_deterministic_for_fixed_seed_witness:
  "fst (sk_train_test_split ex_sampler 0 [5, 6, 7, 8, 9, 10] [0, 0, 0, 1, 1, 1] (1 / 5) (Some 2)
         (Some [0, 0, 0, 1, 1, 1])) =
     Inr \<lparr>X_train = [9, 10, 5, 6], X_test = [7, 8], y_train = [1, 1, 0, 0], y_test = [0, 1]\<rparr> \<and>
   fst (sk_train_test_split ex_sampler 1 [5, 6, 7, 8, 9, 10] [0, 0, 0, 1, 1, 1] (1 / 5) (Some 2)
         (Some [0, 0, 0, 1, 1, 1])) =
     Inr \<lparr>X_train = [9, 10, 5, 6], X_test = [7, 8], y_train = [1, 1, 0, 0], y_test = [0, 1]\<rparr> \<and>
   snd (sk_train_test_split ex_sampler 1 [5, 6, 7, 8, 9, 10] [0, 0, 0, 1, 1, 1] (1 / 5) (Some 2)
         (Some [0, 0, 0, 1, 1, 1])) = 1"
proof -
  let ?call = "\<lambda>g. sk_train_test_split ex_sampler g [5, 6, 7, 8, 9, 10] [0, 0, 0, 1, 1, 1] (1 / 5)
                   (Some 2) (Some [0, 0, 0, 1, 1, 1])"
  have a: "fst (?call 0) =
     Inr \<lparr>X_train = [9, 10, 5, 6], X_test = [7, 8], y_train = [1, 1, 0, 0], y_test = [0, 1]\<rparr>"
    by (simp add: sk_train_test_split_def ex_sampler_def n_test_rows_def n_train_rows_def
      too_few_per_class_def)
  have b: "fst (?call 0) = fst (?call 1) \<and> snd (?call 1) = 1"
    using split_deterministic_for_fixed_seed [of ex_sampler 0 "[5, 6, 7, 8, 9, 10]"
      "[0, 0, 0, 1, 1, 1]" "1 / 5" 2 "Some [0, 0, 0, 1, 1, 1]" 1 ex_env]
      split_deterministic_for_fixed_seed [of ex_sampler 1 "[5, 6, 7, 8, 9, 10]"
      "[0, 0, 0, 1, 1, 1]" "1 / 5" 2 "Some [0, 0, 0, 1, 1, 1]" 1 ex_env]
    by blast
  from a b show ?thesis by simp
qed

text \<open>
  Claim C6, as the code has it. When a class has fewer than two members, or the test
  size 0.2 leaves the training or the test set empty, the split raises \<^verbatim>\<open>ValueError\<close>;
  \<^verbatim>\<open>train_models\<close> does not catch it, trains no model and leaves the predictor as it
  was. No exception class of the repository is involved.
\<close>

theorem split_failure_is_ValueError:
  assumes "(\<exists>c\<in>set y. count_list y c < 2) \<or>
           n_train_rows (1 / 5) (length X) = 0 \<or> n_test_rows (1 / 5) (length X) = 0"
  shows "train_test_split (with_split E R g) X y (1 / 5) (Some 42) (Some y) =
           Inl (Exn ''ValueError'') \<and>
         train_models (with_split E R g) s X y = (s, Some (Exn ''ValueError''))"
proof -
  from sk_split_insufficient [OF assms]
  have "train_test_split (with_split E R g) X y (1 / 5) (Some 42) (Some y) =
           Inl (Exn ''ValueError'')" by (simp add: with_split_call)
  then show ?thesis by (simp add: train_models_def)
qed

theorem split_failure_is_ValueError_witness:
  "count_list [0, 0, 1] (1::int) < 2 \<and>
   train_test_split (with_split ex_env ex_sampler 0) [5, 6, 7] [0, 0, 1] (1 / 5) (Some 42)
     (Some [0, 0, 1]) = Inl (Exn ''ValueError'') \<and>
   train_models (with_split ex_env ex_sampler 0) (init ex_registry) [5, 6, 7] [0, 0, 1] =
     (init ex_registry, Some (Exn ''ValueError''))"
proof -
  have c: "count_list [0, 0, 1] (1::int) < 2" by simp
  then have "(\<exists>c\<in>set [0, 0, 1::int]. count_list [0, 0, 1] c < 2) \<or>
           n_train_rows (1 / 5) (length [5, 6, 7::int]) = 0 \<or>
           n_test_rows (1 / 5) (length [5, 6, 7::int]) = 0" by simp
  from split_failure_is_ValueError [OF this] c show ?thesis by simp
qed

text \<open>
  The claim as the specification states it fails on three rows with the labels 0, 0
  and 1: the class 1 has one member and the exception is a \<^verbatim>\<open>ValueError\<close>, not an
  \<^verbatim>\<open>InsufficientDataError\<close>.
\<close>

theorem split_failure_counterexample:
  "count_list [0, 0, 1] (1::int) < 2 \<and>
   fst (sk_train_test_split ex_sampler 0 [5, 6, 7] [0, 0, 1] (1 / 5) (Some 42) (Some [0, 0, 1])) =
     Inl (Exn ''ValueError'') \<and>
   fst (sk_train_test_split ex_sampler 0 [5, 6, 7] [0, 0, 1] (1 / 5) (Some 42) (Some [0, 0, 1])) \<noteq>
     Inl (Exn ''InsufficientDataError'') \<and>
   snd (train_models (with_split ex_env ex_sampler 0) (init ex_registry) [5, 6, 7] [0, 0, 1]) \<noteq>
     Some (Exn ''InsufficientDataError'')"
  by (simp add: sk_train_test_split_def n_test_rows_def n_train_rows_def too_few_per_class_def
      train_models_def with_split_def)

subsection \<open>The metrics\<close>












end
